theory Spec2Isabelle
  imports Main
begin

section \<open>Tiers, thresholds and the unlock decision\<close>

text \<open>
  The five tier identifiers \<open>"tier1"\<close> .. \<open>"tier5"\<close> of the module. Numbers are the
  integer-valued JavaScript numbers the module works with (settings with step 1, a
  \<open>parseInt\<close> modifier, dice totals); \<open>None\<close> stands for \<open>undefined\<close>.
\<close>

datatype tier = Tier1 | Tier2 | Tier3 | Tier4 | Tier5

definition tierOrder :: "tier list" where
  "tierOrder = [Tier1, Tier2, Tier3, Tier4, Tier5]"

definition tierNum :: "tier \<Rightarrow> nat" where
  "tierNum t = (case t of Tier1 \<Rightarrow> 1 | Tier2 \<Rightarrow> 2 | Tier3 \<Rightarrow> 3 | Tier4 \<Rightarrow> 4 | Tier5 \<Rightarrow> 5)"

text \<open>JavaScript truthiness of a possibly undefined number: \<open>undefined\<close> and \<open>0\<close> are falsy.\<close>

definition truthyNum :: "int option \<Rightarrow> bool" where
  "truthyNum v = (case v of None \<Rightarrow> False | Some n \<Rightarrow> n \<noteq> 0)"

text \<open>\<open>a >= b\<close> on possibly undefined numbers: \<open>undefined\<close> converts to NaN, and every
  comparison with NaN is false.\<close>

definition jsGe :: "int option \<Rightarrow> int option \<Rightarrow> bool" where
  "jsGe a b = (case a of None \<Rightarrow> False
               | Some x \<Rightarrow> (case b of None \<Rightarrow> False | Some y \<Rightarrow> x \<ge> y))"

text \<open>\<open>obj[k] = v\<close> on an object kept as its list of entries in property order: an
  existing key keeps its place, a new key goes last.\<close>

fun setProp :: "('k \<times> 'v) list \<Rightarrow> 'k \<Rightarrow> 'v \<Rightarrow> ('k \<times> 'v) list" where
  "setProp [] k v = [(k, v)]"
| "setProp ((k', v') # ps) k v = (if k' = k then (k, v) # ps else (k', v') # setProp ps k v)"

text \<open>The loop of \<open>_determineUnlockedTiers\<close> over \<open>tierOrder\<close>; the guard
  \<open>if (dcs[tier])\<close> is a truthiness test.\<close>

fun unlockLoop :: "int option \<Rightarrow> (tier \<rightharpoonup> int) \<Rightarrow> tier list \<Rightarrow> (tier \<times> bool) list
    \<Rightarrow> (tier \<times> bool) list" where
  "unlockLoop rollTotal dcs [] unlocked = unlocked"
| "unlockLoop rollTotal dcs (t # ts) unlocked =
     unlockLoop rollTotal dcs ts
       (if truthyNum (dcs t) then setProp unlocked t (jsGe rollTotal (dcs t)) else unlocked)"

definition determineUnlockedTiers :: "int option \<Rightarrow> (tier \<rightharpoonup> int) \<Rightarrow> (tier \<times> bool) list" where
  "determineUnlockedTiers rollTotal dcs = unlockLoop rollTotal dcs tierOrder []"

text \<open>Reading the result: tier \<open>t\<close> is unlocked when \<open>unlocked[t]\<close> is \<open>true\<close>.\<close>

definition isUnlocked :: "(tier \<times> bool) list \<Rightarrow> tier \<Rightarrow> bool" where
  "isUnlocked unlocked t = (map_of unlocked t = Some True)"

section \<open>Strings\<close>

text \<open>The em dash placeholder (three bytes in UTF-8).\<close>

definition dash :: string where
  "dash = [char_of (226::nat), char_of (128::nat), char_of (148::nat)]"

fun joinStr :: "string \<Rightarrow> string list \<Rightarrow> string" where
  "joinStr sep [] = ''''"
| "joinStr sep [x] = x"
| "joinStr sep (x # y # ys) = x @ sep @ joinStr sep (y # ys)"

text \<open>Decimal printing of an integer, as a template literal prints a number; JavaScript
  switches to exponent form from \<open>10\<^sup>2\<^sup>1\<close> on, so the model is of integers of
  smaller magnitude.\<close>

fun showNat :: "nat \<Rightarrow> string" where
  "showNat n = (if n < 10 then [char_of (48 + n)]
                else showNat (n div 10) @ [char_of (48 + n mod 10)])"

declare showNat.simps [simp del]

definition showInt :: "int \<Rightarrow> string" where
  "showInt i = (if i < 0 then ''-'' @ showNat (nat (- i)) else showNat (nat i))"

text \<open>\<open>toUpperCase\<close> on ASCII text: the letters a to z are mapped, every other char is
  kept (abbreviations with letters outside ASCII are not modelled).\<close>

definition upperChar :: "char \<Rightarrow> char" where
  "upperChar c = (let n = (of_char c :: nat) in if 97 \<le> n \<and> n \<le> 122 then char_of (n - 32) else c)"

definition toUpperCase :: "string \<Rightarrow> string" where
  "toUpperCase s = map upperChar s"

text \<open>\<open>x || y\<close> on strings: the empty string is falsy.\<close>

definition orStr :: "string \<Rightarrow> string \<Rightarrow> string" where
  "orStr x y = (if x \<noteq> '''' then x else y)"

section \<open>Host environment and monster data\<close>

text \<open>
  What the host provides: localisation, the label tables of \<open>CONFIG.DND5E\<close> (an entry
  is the \<open>label\<close>, or the \<open>abbreviation\<close>, of the configured object, \<open>None\<close> when the
  entry or the field is missing) and the current date as \<open>toLocaleDateString\<close> prints it.
\<close>

record env =
  localize :: "string \<Rightarrow> string"
  format :: "string \<Rightarrow> (string \<times> string) list \<Rightarrow> string"
  damageTypes :: "string \<rightharpoonup> string"
  conditionTypes :: "string \<rightharpoonup> string"
  languageLabels :: "string \<rightharpoonup> string"
  creatureTypes :: "string \<rightharpoonup> string"
  abilityLabels :: "string \<rightharpoonup> string"
  abilityAbbrs :: "string \<rightharpoonup> string"
  today :: string

text \<open>\<open>table[k]?.label || k\<close>.\<close>

definition labelOr :: "(string \<rightharpoonup> string) \<Rightarrow> string \<Rightarrow> string" where
  "labelOr tbl k = (case tbl k of None \<Rightarrow> k | Some l \<Rightarrow> orStr l k)"

text \<open>A trait: \<open>value\<close> is a Set or an Array (its elements in iteration order), or
  neither (\<open>None\<close>); \<open>custom\<close> is free text, empty when absent.\<close>

record trait =
  tvalue :: "string list option"
  custom :: string

text \<open>An ability's \<open>save\<close> is an object with a numeric \<open>value\<close>, a plain number, or absent.\<close>

datatype save_field = SaveObj int | SaveNum int | SaveAbsent

record ability =
  avalue :: int
  asave :: save_field

record movement =
  walk :: int
  fly :: int
  swim :: int
  climb :: int
  burrow :: int
  munits :: string
  hover :: bool

record senses =
  darkvision :: int
  blindsight :: int
  tremorsense :: int
  truesight :: int
  sunits :: string
  special :: string

text \<open>
  An actor of the host (\<open>Actor5e\<close>) with the part of \<open>actor.system\<close> the module reads.
  An optional field is \<open>None\<close> when the source reads \<open>undefined\<close> or \<open>null\<close> there;
  \<open>abilities\<close> is the object's entries in \<open>Object.entries\<close> order.
\<close>

record monster =
  mid :: string
  mname :: string
  mtype :: string
  isOwner :: bool
  abilities :: "(string \<times> ability) list"
  acValue :: "int option"
  hpMax :: "int option"
  hpFormula :: string
  movementOf :: "movement option"
  sensesOf :: "senses option"
  crOf :: "int option"
  typeValue :: "string option"
  subtype :: string
  legactMax :: "int option"
  legresMax :: "int option"
  dv :: "trait option"
  dr :: "trait option"
  di :: "trait option"
  ci :: "trait option"
  languagesOf :: "trait option"

section \<open>Information items\<close>

datatype jsval = JNum int | JStr string

text \<open>
  The three shapes of an information item: \<open>{label, value, formula}\<close>,
  \<open>{label, items, emptyText}\<close> and \<open>{label, subItems}\<close> (sub-groups of
  \<open>{label, items}\<close>).
\<close>

datatype info_item =
    ValueItem string jsval "string option"
  | ListItem string "string list" string
  | SubItem string "(string \<times> string list) list"

text \<open>What \<open>_getInfoByType\<close> returns when it is not \<open>null\<close>: one item or an array.\<close>

datatype extraction = Single info_item | Multiple "info_item list"

section \<open>Information extractors\<close>

text \<open>\<open>_formatDamageTraits\<close>: the labels of the trait's values, then the custom text.\<close>

definition formatDamageTraits :: "env \<Rightarrow> trait option \<Rightarrow> string list" where
  "formatDamageTraits e tr =
     (case tr of
        None \<Rightarrow> []
      | Some t \<Rightarrow>
          (let values = (case tvalue t of
                           Some types \<Rightarrow> map (labelOr (damageTypes e)) types
                         | None \<Rightarrow> [])
           in if custom t \<noteq> '''' then values @ [custom t] else values))"

text \<open>\<open>_getResistancesInfo\<close>: an array of list items, or the single placeholder object.\<close>

definition getResistancesInfo :: "env \<Rightarrow> monster \<Rightarrow> extraction" where
  "getResistancesInfo e m =
     (let vuln = formatDamageTraits e (dv m);
          res = formatDamageTraits e (dr m);
          imm = formatDamageTraits e (di m);
          infoItems0 = (if vuln \<noteq> []
                        then [ListItem (localize e ''MKC.Chat.DamageVulnerabilities'') vuln '''']
                        else []);
          infoItems1 = (if res \<noteq> []
                        then infoItems0 @ [ListItem (localize e ''MKC.Chat.DamageResistances'') res '''']
                        else infoItems0);
          infoItems = (if imm \<noteq> []
                       then infoItems1 @ [ListItem (localize e ''MKC.Chat.DamageImmunities'') imm '''']
                       else infoItems1)
      in if length infoItems = 0
         then Single (ValueItem (localize e ''MKC.Chat.DamageTraits'')
                        (JStr (localize e ''MKC.Chat.NoDamageTraits'')) None)
         else Multiple infoItems)"

definition getConditionImmunities :: "env \<Rightarrow> monster \<Rightarrow> string list" where
  "getConditionImmunities e m =
     (case ci m of
        None \<Rightarrow> []
      | Some t \<Rightarrow>
          (let values = (case tvalue t of
                           Some conds \<Rightarrow> map (labelOr (conditionTypes e)) conds
                         | None \<Rightarrow> [])
           in if custom t \<noteq> '''' then values @ [custom t] else values))"

definition getConditionImmunitiesInfo :: "env \<Rightarrow> monster \<Rightarrow> info_item" where
  "getConditionImmunitiesInfo e m =
     ListItem (localize e ''MKC.InfoType.ConditionImmunities'') (getConditionImmunities e m)
       (localize e ''MKC.Chat.NoConditionImmunities'')"

text \<open>\<open>ability.save?.value ?? ability.save ?? 0\<close>.\<close>

definition saveOf :: "ability \<Rightarrow> int" where
  "saveOf a = (case asave a of SaveObj v \<Rightarrow> v | SaveNum v \<Rightarrow> v | SaveAbsent \<Rightarrow> 0)"

text \<open>
  The running extreme of \<open>_getHighestStat\<close> and \<open>_getLowestStat\<close>: \<open>st_id = None\<close> is
  the initial \<open>null\<close>, \<open>st_value = None\<close> the initial \<open>-Infinity\<close> (or \<open>Infinity\<close>),
  which every score exceeds (or is below).
\<close>

record stat =
  st_id :: "string option"
  st_value :: "int option"
  st_save :: int
  st_label :: string

definition initStat :: stat where
  "initStat = \<lparr>st_id = None, st_value = None, st_save = 0, st_label = ''''\<rparr>"

definition mkStat :: "env \<Rightarrow> string \<Rightarrow> ability \<Rightarrow> stat" where
  "mkStat e i a = \<lparr>st_id = Some i, st_value = Some (avalue a), st_save = saveOf a,
                   st_label = labelOr (abilityLabels e) i\<rparr>"

fun highestLoop :: "env \<Rightarrow> (string \<times> ability) list \<Rightarrow> stat \<Rightarrow> stat" where
  "highestLoop e [] highest = highest"
| "highestLoop e ((i, a) # rest) highest =
     highestLoop e rest
       (if (case st_value highest of None \<Rightarrow> True | Some h \<Rightarrow> avalue a > h)
        then mkStat e i a else highest)"

fun lowestLoop :: "env \<Rightarrow> (string \<times> ability) list \<Rightarrow> stat \<Rightarrow> stat" where
  "lowestLoop e [] lowest = lowest"
| "lowestLoop e ((i, a) # rest) lowest =
     lowestLoop e rest
       (if (case st_value lowest of None \<Rightarrow> True | Some l \<Rightarrow> avalue a < l)
        then mkStat e i a else lowest)"

text \<open>\<open>highest.id ? highest : null\<close>: \<open>null\<close> and the empty string are falsy.\<close>

definition orNull :: "stat \<Rightarrow> stat option" where
  "orNull s = (case st_id s of None \<Rightarrow> None | Some i \<Rightarrow> if i \<noteq> '''' then Some s else None)"

definition getHighestStat :: "env \<Rightarrow> monster \<Rightarrow> stat option" where
  "getHighestStat e m = orNull (highestLoop e (abilities m) initStat)"

definition getLowestStat :: "env \<Rightarrow> monster \<Rightarrow> stat option" where
  "getLowestStat e m = orNull (lowestLoop e (abilities m) initStat)"

definition signOf :: "int \<Rightarrow> string" where
  "signOf n = (if n \<ge> 0 then ''+'' else '''')"

text \<open>The text of a returned extreme; a returned stat always carries a score, the
  other branch prints the initial value of the scan.\<close>

definition statText :: "env \<Rightarrow> stat \<Rightarrow> string" where
  "statText e s =
     st_label s @ '': '' @ (case st_value s of Some v \<Rightarrow> showInt v | None \<Rightarrow> ''Infinity'')
       @ '' ('' @ localize e ''MKC.Chat.Save'' @ '': '' @ signOf (st_save s) @ showInt (st_save s) @ '')''"

definition getHighestStatInfo :: "env \<Rightarrow> monster \<Rightarrow> info_item option" where
  "getHighestStatInfo e m =
     (case getHighestStat e m of
        None \<Rightarrow> None
      | Some s \<Rightarrow> Some (ValueItem (localize e ''MKC.Chat.HighestStat'') (JStr (statText e s)) None))"

definition getLowestStatInfo :: "env \<Rightarrow> monster \<Rightarrow> info_item option" where
  "getLowestStatInfo e m =
     (case getLowestStat e m of
        None \<Rightarrow> None
      | Some s \<Rightarrow> Some (ValueItem (localize e ''MKC.Chat.LowestStat'') (JStr (statText e s)) None))"

definition formatSpeed :: "monster \<Rightarrow> string" where
  "formatSpeed m =
     (case movementOf m of
        None \<Rightarrow> dash
      | Some mv \<Rightarrow>
          (let u = orStr (munits mv) ''ft.'';
               parts =
                 (if walk mv \<noteq> 0 then [showInt (walk mv) @ '' '' @ u] else []) @
                 (if fly mv \<noteq> 0
                  then [''fly '' @ showInt (fly mv) @ '' '' @ u @ (if hover mv then '' (hover)'' else '''')]
                  else []) @
                 (if swim mv \<noteq> 0 then [''swim '' @ showInt (swim mv) @ '' '' @ u] else []) @
                 (if climb mv \<noteq> 0 then [''climb '' @ showInt (climb mv) @ '' '' @ u] else []) @
                 (if burrow mv \<noteq> 0 then [''burrow '' @ showInt (burrow mv) @ '' '' @ u] else [])
           in orStr (joinStr '', '' parts) dash))"

definition formatSenses :: "monster \<Rightarrow> string" where
  "formatSenses m =
     (case sensesOf m of
        None \<Rightarrow> dash
      | Some s \<Rightarrow>
          (let u = orStr (sunits s) ''ft.'';
               parts =
                 (if darkvision s \<noteq> 0 then [''darkvision '' @ showInt (darkvision s) @ '' '' @ u] else []) @
                 (if blindsight s \<noteq> 0 then [''blindsight '' @ showInt (blindsight s) @ '' '' @ u] else []) @
                 (if tremorsense s \<noteq> 0 then [''tremorsense '' @ showInt (tremorsense s) @ '' '' @ u] else []) @
                 (if truesight s \<noteq> 0 then [''truesight '' @ showInt (truesight s) @ '' '' @ u] else []) @
                 (if special s \<noteq> '''' then [special s] else [])
           in orStr (joinStr '', '' parts) dash))"

definition formatLanguages :: "env \<Rightarrow> monster \<Rightarrow> string" where
  "formatLanguages e m =
     (case languagesOf m of
        None \<Rightarrow> dash
      | Some t \<Rightarrow>
          (let parts0 = (case tvalue t of
                           Some langs \<Rightarrow> map (labelOr (languageLabels e)) langs
                         | None \<Rightarrow> []);
               parts = (if custom t \<noteq> '''' then parts0 @ [custom t] else parts0)
           in orStr (joinStr '', '' parts) dash))"

definition formatCreatureType :: "env \<Rightarrow> monster \<Rightarrow> string" where
  "formatCreatureType e m =
     (let typeLabel = (case typeValue m of
                         None \<Rightarrow> dash
                       | Some v \<Rightarrow> orStr (labelOr (creatureTypes e) v) dash)
      in if subtype m \<noteq> '''' then typeLabel @ '' ('' @ subtype m @ '')'' else typeLabel)"

text \<open>\<open>CONFIG.DND5E.abilities[id]?.abbreviation?.toUpperCase() || id\<close>.\<close>

definition abbrOr :: "env \<Rightarrow> string \<Rightarrow> string" where
  "abbrOr e i = (case abilityAbbrs e i of None \<Rightarrow> i | Some a \<Rightarrow> orStr (toUpperCase a) i)"

definition formatAllStats :: "env \<Rightarrow> monster \<Rightarrow> string" where
  "formatAllStats e m =
     joinStr '', '' (map (\<lambda>(i, a). abbrOr e i @ '': '' @ showInt (avalue a)) (abilities m))"

definition formatAllSaves :: "env \<Rightarrow> monster \<Rightarrow> string" where
  "formatAllSaves e m =
     joinStr '', '' (map (\<lambda>(i, a). abbrOr e i @ '': '' @ signOf (saveOf a) @ showInt (saveOf a))
                       (abilities m))"

text \<open>\<open>x ?? dash\<close> and \<open>x ?? 0\<close> on an optional number.\<close>

definition numOrDash :: "int option \<Rightarrow> jsval" where
  "numOrDash v = (case v of Some n \<Rightarrow> JNum n | None \<Rightarrow> JStr dash)"

definition numOrZero :: "int option \<Rightarrow> jsval" where
  "numOrZero v = (case v of Some n \<Rightarrow> JNum n | None \<Rightarrow> JNum 0)"

text \<open>\<open>_getInfoByType\<close>: the \<open>switch\<close> over the information kind; \<open>None\<close> is \<open>null\<close>.\<close>

definition getInfoByType :: "env \<Rightarrow> monster \<Rightarrow> string \<Rightarrow> extraction option" where
  "getInfoByType e m infoType =
     (if infoType = ''resistances'' then Some (getResistancesInfo e m)
      else if infoType = ''conditionImmunities'' then Some (Single (getConditionImmunitiesInfo e m))
      else if infoType = ''highestStat'' then map_option Single (getHighestStatInfo e m)
      else if infoType = ''lowestStat'' then map_option Single (getLowestStatInfo e m)
      else if infoType = ''ac''
        then Some (Single (ValueItem (localize e ''MKC.InfoType.AC'') (numOrDash (acValue m)) None))
      else if infoType = ''hp''
        then Some (Single (ValueItem (localize e ''MKC.InfoType.HP'') (numOrDash (hpMax m))
                     (if hpFormula m \<noteq> '''' then Some (hpFormula m) else None)))
      else if infoType = ''speed''
        then Some (Single (ValueItem (localize e ''MKC.InfoType.Speed'') (JStr (formatSpeed m)) None))
      else if infoType = ''senses''
        then Some (Single (ValueItem (localize e ''MKC.InfoType.Senses'') (JStr (formatSenses m)) None))
      else if infoType = ''languages''
        then Some (Single (ValueItem (localize e ''MKC.InfoType.Languages'') (JStr (formatLanguages e m)) None))
      else if infoType = ''cr''
        then Some (Single (ValueItem (localize e ''MKC.InfoType.CR'') (numOrDash (crOf m)) None))
      else if infoType = ''creatureType''
        then Some (Single (ValueItem (localize e ''MKC.InfoType.CreatureType'')
                     (JStr (formatCreatureType e m)) None))
      else if infoType = ''allStats''
        then Some (Single (ValueItem (localize e ''MKC.InfoType.AllStats'') (JStr (formatAllStats e m)) None))
      else if infoType = ''allSaves''
        then Some (Single (ValueItem (localize e ''MKC.InfoType.AllSaves'') (JStr (formatAllSaves e m)) None))
      else if infoType = ''legendaryActions''
        then Some (Single (ValueItem (localize e ''MKC.InfoType.LegendaryActions'')
                     (numOrZero (legactMax m)) None))
      else if infoType = ''legendaryResistances''
        then Some (Single (ValueItem (localize e ''MKC.InfoType.LegendaryResistances'')
                     (numOrZero (legresMax m)) None))
      else None)"

section \<open>Gathering the knowledge bundle\<close>

text \<open>One tier of \<open>getAllTierConfig\<close>: its DC and its information kinds (always an array).\<close>

record tier_cfg =
  dc :: int
  info :: "string list"

record tier_data =
  td_id :: tier
  td_label :: string
  td_icon :: string
  td_level :: nat
  td_unlocked :: bool
  td_info :: "info_item list"

record knowledge =
  tiers :: "tier_data list"
  hasAny :: bool

text \<open>The table \<open>tierLabels\<close> of \<open>_gatherKnowledge\<close>, spread into a fresh \<open>tierData\<close>.\<close>

definition newTierData :: "env \<Rightarrow> tier \<Rightarrow> tier_data" where
  "newTierData e tierId =
     (case tierId of
        Tier1 \<Rightarrow> \<lparr>td_id = tierId, td_label = localize e ''MKC.Tier.I'', td_icon = ''fas fa-star'',
                   td_level = 1, td_unlocked = True, td_info = []\<rparr>
      | Tier2 \<Rightarrow> \<lparr>td_id = tierId, td_label = localize e ''MKC.Tier.II'', td_icon = ''fas fa-star'',
                   td_level = 2, td_unlocked = True, td_info = []\<rparr>
      | Tier3 \<Rightarrow> \<lparr>td_id = tierId, td_label = localize e ''MKC.Tier.III'', td_icon = ''fas fa-star'',
                   td_level = 3, td_unlocked = True, td_info = []\<rparr>
      | Tier4 \<Rightarrow> \<lparr>td_id = tierId, td_label = localize e ''MKC.Tier.IV'', td_icon = ''fas fa-crown'',
                   td_level = 4, td_unlocked = True, td_info = []\<rparr>
      | Tier5 \<Rightarrow> \<lparr>td_id = tierId, td_label = localize e ''MKC.Tier.V'', td_icon = ''fas fa-gem'',
                   td_level = 5, td_unlocked = True, td_info = []\<rparr>)"

text \<open>The inner loop over \<open>infoTypes\<close>: a \<open>null\<close> extraction pushes nothing, an array is
  spread, a single item is pushed.\<close>

fun collectInfo :: "env \<Rightarrow> monster \<Rightarrow> string list \<Rightarrow> info_item list \<Rightarrow> info_item list" where
  "collectInfo e m [] acc = acc"
| "collectInfo e m (infoType # rest) acc =
     collectInfo e m rest
       (case getInfoByType e m infoType of
          None \<Rightarrow> acc
        | Some (Multiple xs) \<Rightarrow> acc @ xs
        | Some (Single x) \<Rightarrow> acc @ [x])"

text \<open>The body of the outer loop, for one entry of \<open>Object.entries(unlockedTiers)\<close>.
  \<open>hasAny\<close> is set as soon as an unlocked tier has a non-empty kind list, before
  anything is extracted.\<close>

definition gatherStep :: "env \<Rightarrow> monster \<Rightarrow> (tier \<rightharpoonup> tier_cfg) \<Rightarrow> knowledge \<Rightarrow> tier \<Rightarrow> bool
    \<Rightarrow> knowledge" where
  "gatherStep e m tierConfig k tierId unlocked =
     (if unlocked then
        (case tierConfig tierId of
           None \<Rightarrow> k
         | Some c \<Rightarrow>
             if length (info c) = 0 then k
             else (let k1 = k\<lparr>hasAny := True\<rparr>;
                       tierData = (newTierData e tierId)
                                    \<lparr>td_info := collectInfo e m (info c) []\<rparr>
                   in if length (td_info tierData) > 0
                      then k1\<lparr>tiers := tiers k1 @ [tierData]\<rparr>
                      else k1))
      else k)"

fun gatherLoop :: "env \<Rightarrow> monster \<Rightarrow> (tier \<rightharpoonup> tier_cfg) \<Rightarrow> (tier \<times> bool) list \<Rightarrow> knowledge
    \<Rightarrow> knowledge" where
  "gatherLoop e m tierConfig [] k = k"
| "gatherLoop e m tierConfig ((tierId, unlocked) # rest) k =
     gatherLoop e m tierConfig rest (gatherStep e m tierConfig k tierId unlocked)"

definition gatherKnowledge :: "env \<Rightarrow> monster \<Rightarrow> (tier \<times> bool) list \<Rightarrow> (tier \<rightharpoonup> tier_cfg)
    \<Rightarrow> knowledge" where
  "gatherKnowledge e m unlockedTiers tierConfig =
     gatherLoop e m tierConfig unlockedTiers \<lparr>tiers = [], hasAny = False\<rparr>"

section \<open>Performing a check\<close>

text \<open>The thresholds of a check: every DC shifted by the modifier, tier 5 only when it
  has a truthy DC and at least one information kind.\<close>

definition tier5Configured :: "(tier \<Rightarrow> tier_cfg) \<Rightarrow> bool" where
  "tier5Configured tierConfig = (dc (tierConfig Tier5) \<noteq> 0 \<and> length (info (tierConfig Tier5)) > 0)"

definition checkDcs :: "(tier \<Rightarrow> tier_cfg) \<Rightarrow> int \<Rightarrow> (tier \<rightharpoonup> int)" where
  "checkDcs tierConfig dcModifier =
     (let dcs = [Tier1 \<mapsto> dc (tierConfig Tier1) + dcModifier,
                 Tier2 \<mapsto> dc (tierConfig Tier2) + dcModifier,
                 Tier3 \<mapsto> dc (tierConfig Tier3) + dcModifier,
                 Tier4 \<mapsto> dc (tierConfig Tier4) + dcModifier]
      in if tier5Configured tierConfig
         then dcs(Tier5 \<mapsto> dc (tierConfig Tier5) + dcModifier)
         else dcs)"

text \<open>\<open>autopass\<close> is \<open>None\<close> for the empty string; \<open>rolled\<close> is the total the dice
  evaluator returns, used only without autopass.\<close>

definition effectiveTotal :: "(tier \<rightharpoonup> int) \<Rightarrow> tier option \<Rightarrow> int \<Rightarrow> int option" where
  "effectiveTotal dcs autopass rolled =
     (case autopass of Some t \<Rightarrow> dcs t | None \<Rightarrow> Some rolled)"

record chat_message =
  cm_rollTotal :: "int option"
  cm_isAutopass :: bool
  cm_autopassLevel :: "tier option"
  cm_dcs :: "tier \<rightharpoonup> int"
  cm_monsterId :: string
  cm_monsterName :: string
  cm_skillUsed :: string
  cm_knowledge :: knowledge

definition performKnowledgeCheck :: "env \<Rightarrow> monster \<Rightarrow> (tier \<Rightarrow> tier_cfg) \<Rightarrow> string \<Rightarrow> int
    \<Rightarrow> tier option \<Rightarrow> int \<Rightarrow> chat_message" where
  "performKnowledgeCheck e m tierConfig skillId dcModifier autopass rolled =
     (let dcs = checkDcs tierConfig dcModifier;
          effTotal = effectiveTotal dcs autopass rolled;
          unlockedTiers = determineUnlockedTiers effTotal dcs;
          k = gatherKnowledge e m unlockedTiers (\<lambda>t. Some (tierConfig t))
      in \<lparr>cm_rollTotal = (case autopass of Some t \<Rightarrow> None | None \<Rightarrow> Some rolled),
          cm_isAutopass = (autopass \<noteq> None),
          cm_autopassLevel = autopass,
          cm_dcs = dcs,
          cm_monsterId = mid m,
          cm_monsterName = mname m,
          cm_skillUsed = skillId,
          cm_knowledge = k\<rparr>)"

section \<open>The bestiary\<close>

record page =
  pg_name :: string
  pg_type :: string
  pg_content :: string

record journal =
  jr_name :: string
  jr_pages :: "page list"

datatype notification = NInfo string | NWarn string | NError string

text \<open>The part of the host's world the bestiary functions touch: \<open>game.actors.get\<close>,
  \<open>game.journal\<close> in collection order, and the notifications shown so far.\<close>

record world =
  actors :: "string \<rightharpoonup> monster"
  journals :: "journal list"
  notifications :: "notification list"

definition showVal :: "jsval \<Rightarrow> string" where
  "showVal v = (case v of JNum n \<Rightarrow> showInt n | JStr s \<Rightarrow> s)"

fun renderInfo :: "info_item \<Rightarrow> string" where
  "renderInfo (SubItem label subs) =
     ''<p><strong>'' @ label @ '':</strong></p><ul>''
       @ concat (map (\<lambda>(l, items). ''<li><strong>'' @ l @ '':</strong> '' @ joinStr '', '' items @ ''</li>'') subs)
       @ ''</ul>''"
| "renderInfo (ListItem label items emptyText) =
     (if length items \<noteq> 0
      then ''<p><strong>'' @ label @ '':</strong> '' @ joinStr '', '' items @ ''</p>''
      else ''<p><strong>'' @ label @ '':</strong> <em>'' @ orStr emptyText ''None'' @ ''</em></p>'')"
| "renderInfo (ValueItem label v formula) =
     ''<p><strong>'' @ label @ '':</strong> '' @ showVal v
       @ (case formula of None \<Rightarrow> '''' | Some f \<Rightarrow> if f \<noteq> '''' then '' ('' @ f @ '')'' else '''')
       @ ''</p>''"

fun renderInfos :: "info_item list \<Rightarrow> string \<Rightarrow> string" where
  "renderInfos [] content = content"
| "renderInfos (i # rest) content = renderInfos rest (content @ renderInfo i)"

fun renderTiers :: "tier_data list \<Rightarrow> string \<Rightarrow> string" where
  "renderTiers [] content = content"
| "renderTiers (t # rest) content =
     renderTiers rest (renderInfos (td_info t) (content @ ''<h3>'' @ td_label t @ ''</h3>''))"

definition timestampHeader :: "env \<Rightarrow> string" where
  "timestampHeader e =
     ''<p><em>'' @ format e ''MKC.Journal.LastUpdated'' [(''date'', today e)] @ ''</em></p><hr>''"

definition buildBestiaryContent :: "env \<Rightarrow> knowledge \<Rightarrow> string \<Rightarrow> string" where
  "buildBestiaryContent e k monsterName = renderTiers (tiers k) (timestampHeader e)"

definition mergeBestiaryContent :: "string \<Rightarrow> string \<Rightarrow> string" where
  "mergeBestiaryContent existingContent newContent = newContent"

text \<open>Updating the object that \<open>find\<close> returned: the first element satisfying the test.\<close>

fun updateFirst :: "('a \<Rightarrow> bool) \<Rightarrow> ('a \<Rightarrow> 'a) \<Rightarrow> 'a list \<Rightarrow> 'a list" where
  "updateFirst P f [] = []"
| "updateFirst P f (x # xs) = (if P x then f x # xs else x # updateFirst P f xs)"

definition notify :: "notification \<Rightarrow> world \<Rightarrow> world" where
  "notify n w = w\<lparr>notifications := notifications w @ [n]\<rparr>"

definition addToBestiary :: "env \<Rightarrow> world \<Rightarrow> string \<Rightarrow> knowledge \<Rightarrow> world" where
  "addToBestiary e w monsterId k =
     (case actors w monsterId of
        None \<Rightarrow> notify (NError (localize e ''MKC.Errors.MonsterNotFound'')) w
      | Some monster \<Rightarrow>
          (let monsterName = mname monster;
               journalName = localize e ''MKC.Journal.BestiaryName'';
               content = buildBestiaryContent e k monsterName;
               newPage = \<lparr>pg_name = monsterName, pg_type = ''text'', pg_content = content\<rparr>
           in case find (\<lambda>j. jr_name j = journalName) (journals w) of
                None \<Rightarrow>
                  notify (NInfo (format e ''MKC.Journal.Created'' [(''name'', monsterName)]))
                    (w\<lparr>journals := journals w @ [\<lparr>jr_name = journalName, jr_pages = [newPage]\<rparr>]\<rparr>)
              | Some bestiary \<Rightarrow>
                  (case find (\<lambda>p. pg_name p = monsterName) (jr_pages bestiary) of
                     Some existingPage \<Rightarrow>
                       notify (NInfo (format e ''MKC.Journal.Updated'' [(''name'', monsterName)]))
                         (w\<lparr>journals := updateFirst (\<lambda>j. jr_name j = journalName)
                              (\<lambda>j. j\<lparr>jr_pages := updateFirst (\<lambda>p. pg_name p = monsterName)
                                     (\<lambda>p. p\<lparr>pg_content := mergeBestiaryContent (pg_content p) content\<rparr>)
                                     (jr_pages j)\<rparr>)
                              (journals w)\<rparr>)
                   | None \<Rightarrow>
                       notify (NInfo (format e ''MKC.Journal.PageAdded'' [(''name'', monsterName)]))
                         (w\<lparr>journals := updateFirst (\<lambda>j. jr_name j = journalName)
                              (\<lambda>j. j\<lparr>jr_pages := jr_pages j @ [newPage]\<rparr>)
                              (journals w)\<rparr>))))"

text \<open>The click handler of the chat button: without stored knowledge an error, else the commit.\<close>

definition onAddToBestiaryClick :: "env \<Rightarrow> world \<Rightarrow> string \<Rightarrow> knowledge option \<Rightarrow> world" where
  "onAddToBestiaryClick e w monsterId flagsKnowledge =
     (case flagsKnowledge of
        None \<Rightarrow> notify (NError (localize e ''MKC.Errors.NoKnowledgeData'')) w
      | Some k \<Rightarrow> addToBestiary e w monsterId k)"

section \<open>Starting a check\<close>

text \<open>What the click handler reads: for each targeted token its actor (if any), the
  user's role and assigned character, and the actors of the game.\<close>

record game =
  targets :: "monster option list"
  userIsGM :: bool
  userCharacter :: "monster option"
  gameActors :: "monster list"

record dialog =
  dlg_monster :: monster
  dlg_availableCharacters :: "monster list"
  dlg_selectedCharacterId :: string

definition getAvailableCharacters :: "game \<Rightarrow> monster list" where
  "getAvailableCharacters g =
     (if userIsGM g then filter (\<lambda>a. mtype a = ''character'') (gameActors g)
      else filter (\<lambda>a. mtype a = ''character'' \<and> isOwner a) (gameActors g))"

text \<open>The outcome of a click: the warning shown, or the dialog that is opened. Only an
  opened dialog can go on to resolve tiers and extract information.\<close>

definition onMonsterKnowledgeClick :: "env \<Rightarrow> game \<Rightarrow> notification + dialog" where
  "onMonsterKnowledgeClick e g =
     (if length (targets g) = 0 then Inl (NWarn (localize e ''MKC.Warnings.NoTokenTargeted''))
      else if length (targets g) > 1 then Inl (NWarn (localize e ''MKC.Warnings.MultipleTokensTargeted''))
      else (case hd (targets g) of
              None \<Rightarrow> Inl (NWarn (localize e ''MKC.Warnings.NoActorOnToken''))
            | Some actor \<Rightarrow>
                if mtype actor \<noteq> ''npc'' then Inl (NWarn (localize e ''MKC.Warnings.NotAnNPC''))
                else (case getAvailableCharacters g of
                        [] \<Rightarrow> Inl (NWarn (localize e ''MKC.Warnings.NoPlayerCharacter''))
                      | first # others \<Rightarrow>
                          (let defaultCharacter = (case userCharacter g of Some c \<Rightarrow> c | None \<Rightarrow> first)
                           in Inr \<lparr>dlg_monster = actor,
                                   dlg_availableCharacters = first # others,
                                   dlg_selectedCharacterId = orStr (mid defaultCharacter) (mid first)\<rparr>))))"

section \<open>Shipped defaults\<close>

text \<open>\<open>DEFAULT_DCS\<close> and \<open>DEFAULT_TIER_INFO\<close> of the settings module, as
  \<open>getAllTierConfig\<close> returns them on a fresh world, and the keys of \<open>INFO_TYPES\<close>.\<close>

definition defaultTierConfig :: "tier \<Rightarrow> tier_cfg" where
  "defaultTierConfig t =
     (case t of
        Tier1 \<Rightarrow> \<lparr>dc = 12, info = [''resistances'']\<rparr>
      | Tier2 \<Rightarrow> \<lparr>dc = 15, info = [''conditionImmunities'']\<rparr>
      | Tier3 \<Rightarrow> \<lparr>dc = 18, info = [''highestStat'']\<rparr>
      | Tier4 \<Rightarrow> \<lparr>dc = 22, info = [''lowestStat'']\<rparr>
      | Tier5 \<Rightarrow> \<lparr>dc = 25, info = []\<rparr>)"

definition INFO_TYPES :: "string list" where
  "INFO_TYPES = [''resistances'', ''conditionImmunities'', ''highestStat'', ''lowestStat'',
     ''ac'', ''hp'', ''speed'', ''senses'', ''languages'', ''cr'', ''creatureType'',
     ''allStats'', ''allSaves'', ''legendaryActions'', ''legendaryResistances'']"

section \<open>Observations\<close>

text \<open>The items one information kind contributes to a tier: none for \<open>null\<close>, the
  elements of an array, or the single item.\<close>

definition extractedItems :: "env \<Rightarrow> monster \<Rightarrow> string \<Rightarrow> info_item list" where
  "extractedItems e m infoType =
     (case getInfoByType e m infoType of
        None \<Rightarrow> []
      | Some (Single x) \<Rightarrow> [x]
      | Some (Multiple xs) \<Rightarrow> xs)"

text \<open>The tier entries one entry of the unlocked-tier object adds to the bundle.\<close>

definition tierEntries :: "env \<Rightarrow> monster \<Rightarrow> (tier \<rightharpoonup> tier_cfg) \<Rightarrow> tier \<times> bool \<Rightarrow> tier_data list" where
  "tierEntries e m tierConfig p =
     (if snd p then
        (case tierConfig (fst p) of
           None \<Rightarrow> []
         | Some c \<Rightarrow>
             if info c = [] then []
             else if collectInfo e m (info c) [] = [] then []
             else [(newTierData e (fst p))\<lparr>td_info := collectInfo e m (info c) []\<rparr>])
      else [])"

text \<open>The bestiary as \<open>addToBestiary\<close> looks it up: the pages of the first journal with
  the bestiary's name, and among them the first page with the monster's name.\<close>

definition bestiaryPages :: "env \<Rightarrow> world \<Rightarrow> page list" where
  "bestiaryPages e w =
     (case find (\<lambda>j. jr_name j = localize e ''MKC.Journal.BestiaryName'') (journals w) of
        None \<Rightarrow> []
      | Some bestiary \<Rightarrow> jr_pages bestiary)"

definition bestiaryPage :: "env \<Rightarrow> world \<Rightarrow> string \<Rightarrow> page option" where
  "bestiaryPage e w monsterName = find (\<lambda>p. pg_name p = monsterName) (bestiaryPages e w)"

text \<open>The HTML one tier contributes to a bestiary page.\<close>

definition tierHtml :: "tier_data \<Rightarrow> string" where
  "tierHtml t = ''<h3>'' @ td_label t @ ''</h3>'' @ concat (map renderInfo (td_info t))"

section \<open>Sample data\<close>

text \<open>A host without translations (\<open>localize\<close> returns the key), a goblin, a player
  character, and worlds without and with a bestiary page for the goblin.\<close>

definition sampleEnv :: env where
  "sampleEnv =
     \<lparr>localize = (\<lambda>key. key),
      format = (\<lambda>key args. key @ concat (map snd args)),
      damageTypes = [''fire'' \<mapsto> ''Fire'', ''cold'' \<mapsto> ''Cold'', ''poison'' \<mapsto> []],
      conditionTypes = [''charmed'' \<mapsto> ''Charmed''],
      languageLabels = [''common'' \<mapsto> ''Common'', ''goblin'' \<mapsto> ''Goblin''],
      creatureTypes = [''humanoid'' \<mapsto> ''Humanoid''],
      abilityLabels = [''str'' \<mapsto> ''Strength'', ''dex'' \<mapsto> ''Dexterity''],
      abilityAbbrs = [''str'' \<mapsto> ''str'', ''dex'' \<mapsto> ''dex''],
      today = ''11/2/2026''\<rparr>"

definition goblin :: monster where
  "goblin =
     \<lparr>mid = ''gob1'', mname = ''Goblin'', mtype = ''npc'', isOwner = False,
      abilities = [(''str'', \<lparr>avalue = 8, asave = SaveObj (- 1)\<rparr>),
                   (''dex'', \<lparr>avalue = 14, asave = SaveObj 2\<rparr>),
                   (''con'', \<lparr>avalue = 10, asave = SaveObj 0\<rparr>),
                   (''int'', \<lparr>avalue = 10, asave = SaveObj 0\<rparr>),
                   (''wis'', \<lparr>avalue = 8, asave = SaveObj (- 1)\<rparr>),
                   (''cha'', \<lparr>avalue = 8, asave = SaveObj (- 1)\<rparr>)],
      acValue = Some 15, hpMax = Some 7, hpFormula = ''2d6'',
      movementOf = Some \<lparr>walk = 30, fly = 0, swim = 0, climb = 0, burrow = 0,
                          munits = ''ft'', hover = False\<rparr>,
      sensesOf = Some \<lparr>darkvision = 60, blindsight = 0, tremorsense = 0, truesight = 0,
                        sunits = ''ft'', special = []\<rparr>,
      crOf = Some 1, typeValue = Some ''humanoid'', subtype = ''goblinoid'',
      legactMax = None, legresMax = None,
      dv = Some \<lparr>tvalue = Some [], custom = []\<rparr>,
      dr = Some \<lparr>tvalue = Some [], custom = []\<rparr>,
      di = Some \<lparr>tvalue = Some [], custom = []\<rparr>,
      ci = Some \<lparr>tvalue = Some [], custom = []\<rparr>,
      languagesOf = Some \<lparr>tvalue = Some [''common'', ''goblin''], custom = []\<rparr>\<rparr>"


definition hero :: monster where
  "hero = goblin\<lparr>mid := ''pc1'', mname := ''Momo'', mtype := ''character'', isOwner := True\<rparr>"

definition freshWorld :: world where
  "freshWorld = \<lparr>actors = [''gob1'' \<mapsto> goblin], journals = [], notifications = []\<rparr>"

definition recordedWorld :: world where
  "recordedWorld =
     \<lparr>actors = [''gob1'' \<mapsto> goblin],
      journals = [\<lparr>jr_name = ''MKC.Journal.BestiaryName'',
                   jr_pages = [\<lparr>pg_name = ''Goblin'', pg_type = ''text'',
                                 pg_content = ''<h3>Tier I</h3><p>old notes</p>''\<rparr>]\<rparr>],
      notifications = []\<rparr>"

definition sampleBundle :: knowledge where
  "sampleBundle =
     \<lparr>tiers = [\<lparr>td_id = Tier1, td_label = ''Tier I'', td_icon = ''fas fa-star'', td_level = 1,
                 td_unlocked = True,
                 td_info = [ValueItem ''Armor Class'' (JNum 15) None,
                            ListItem ''Condition Immunities'' [] ''None known'']\<rparr>],
      hasAny = True\<rparr>"

text \<open>A drake with all three damage-trait categories: a type with a label, one without an
  entry in the table, one whose label is empty, and custom text.\<close>

definition drake :: monster where
  "drake = goblin\<lparr>mid := ''drk1'', mname := ''Drake'',
                   dv := Some \<lparr>tvalue = Some [''cold''], custom = []\<rparr>,
                   dr := Some \<lparr>tvalue = Some [''fire'', ''acid''], custom = ''nonmagical attacks''\<rparr>,
                   di := Some \<lparr>tvalue = Some [''poison''], custom = []\<rparr>\<rparr>"

definition fullBundle :: knowledge where
  "fullBundle =
     \<lparr>tiers = [\<lparr>td_id = Tier1, td_label = ''Tier I'', td_icon = ''fas fa-star'', td_level = 1,
                 td_unlocked = True,
                 td_info = [ValueItem ''Armor Class'' (JNum 15) None,
                            ValueItem ''Hit Points'' (JNum 7) (Some ''2d6'')]\<rparr>,
               \<lparr>td_id = Tier2, td_label = ''Tier II'', td_icon = ''fas fa-star'', td_level = 2,
                 td_unlocked = True,
                 td_info = [ListItem ''Damage Resistances'' [''Fire'', ''Cold''] [],
                            ListItem ''Condition Immunities'' [] [],
                            ValueItem ''Speed'' (JStr ''30 ft.'') None]\<rparr>],
      hasAny = True\<rparr>"

definition emptyBundle :: knowledge where
  "emptyBundle = \<lparr>tiers = [], hasAny = False\<rparr>"

definition sampleGame :: game where
  "sampleGame = \<lparr>targets = [Some goblin], userIsGM = True, userCharacter = None,
                  gameActors = [goblin, hero]\<rparr>"

section \<open>The unlock decision: properties\<close>

lemma determineUnlockedTiers_entries:
  "determineUnlockedTiers rt dcs =
     concat (map (\<lambda>t. if truthyNum (dcs t) then [(t, jsGe rt (dcs t))] else []) tierOrder)"
  by (simp add: determineUnlockedTiers_def tierOrder_def)

lemma determineUnlockedTiers_lookup:
  "map_of (determineUnlockedTiers rt dcs) t =
     (if truthyNum (dcs t) then Some (jsGe rt (dcs t)) else None)"
  by (cases t) (simp_all add: determineUnlockedTiers_entries tierOrder_def)

lemma isUnlocked_iff:
  "isUnlocked (determineUnlockedTiers rt dcs) t \<longleftrightarrow> truthyNum (dcs t) \<and> jsGe rt (dcs t)"
  by (auto simp add: isUnlocked_def determineUnlockedTiers_lookup)

text \<open>
  What the resolver does for thresholds other than zero: a tier with such a threshold is
  mapped to the comparison, a tier without a threshold is left out.
\<close>

lemma determineUnlockedTiers_nonzero:
  assumes "dcs t = Some d" and "d \<noteq> 0"
  shows "map_of (determineUnlockedTiers (Some n) dcs) t = Some (n \<ge> d)"
  using assms by (simp add: determineUnlockedTiers_lookup truthyNum_def jsGe_def)

lemma determineUnlockedTiers_undefined:
  assumes "dcs t = None"
  shows "map_of (determineUnlockedTiers rt dcs) t = None"
  using assms by (simp add: determineUnlockedTiers_lookup truthyNum_def)

text \<open>
  C2. The resolver should map every tier with a defined threshold to the comparison
  \<open>total \<ge> threshold\<close> and leave out every tier without one. A threshold of exactly zero
  is defined, yet the truthiness guard treats it as missing: with thresholds 0 for tier 1
  and 3 for tier 2 and a total of 5, tier 1 is left out of the result although 5 \<ge> 0.
\<close>

theorem determineUnlockedTiers_zero_threshold:
  "determineUnlockedTiers (Some 5) [Tier1 \<mapsto> 0, Tier2 \<mapsto> 3] = [(Tier2, True)]"
  by (simp add: determineUnlockedTiers_def tierOrder_def truthyNum_def jsGe_def)

text \<open>
  Monotonicity, as far as the code has it: with strictly increasing thresholds none of
  which is zero, an unlocked tier has every lower tier with a threshold unlocked too. The
  shipped thresholds with a total of 20 unlock tiers 1 to 3 and not 4 and 5.
\<close>

lemma unlock_monotone_nonzero:
  assumes nz: "\<forall>t. dcs t \<noteq> Some 0"
    and inc: "\<forall>a b d d'. tierNum a < tierNum b \<and> dcs a = Some d \<and> dcs b = Some d' \<longrightarrow> d < d'"
    and dj: "dcs j \<noteq> None"
    and uk: "isUnlocked (determineUnlockedTiers (Some n) dcs) k"
    and jk: "tierNum j < tierNum k"
  shows "isUnlocked (determineUnlockedTiers (Some n) dcs) j"
proof -
  from uk obtain d' where k: "dcs k = Some d'" "d' \<le> n"
    by (auto simp add: isUnlocked_iff truthyNum_def jsGe_def split: option.splits)
  from dj obtain d where j: "dcs j = Some d" by auto
  from inc jk j k have "d < d'" by blast
  moreover from nz j have "d \<noteq> 0" by auto
  ultimately show ?thesis using j k
    by (simp add: isUnlocked_iff truthyNum_def jsGe_def)
qed

lemma unlock_shipped_thresholds_20:
  "determineUnlockedTiers (Some 20)
     [Tier1 \<mapsto> 12, Tier2 \<mapsto> 15, Tier3 \<mapsto> 18, Tier4 \<mapsto> 22, Tier5 \<mapsto> 25]
   = [(Tier1, True), (Tier2, True), (Tier3, True), (Tier4, False), (Tier5, False)]"
  by (simp add: determineUnlockedTiers_def tierOrder_def truthyNum_def jsGe_def)

text \<open>
  C3. With strictly increasing thresholds, a total that unlocks tier \<open>k\<close> should unlock
  every tier below \<open>k\<close>. The thresholds 0, 3, 6, 10, 13 (the shipped ones under a modifier
  of -12) are strictly increasing; a total of 5 unlocks tier 2, but tier 1, whose
  threshold is zero, is left out of the result and so is not unlocked.
\<close>

theorem unlock_not_monotone_at_zero:
  "(let dcs = [Tier1 \<mapsto> 0, Tier2 \<mapsto> 3, Tier3 \<mapsto> 6, Tier4 \<mapsto> 10, Tier5 \<mapsto> 13];
        u = determineUnlockedTiers (Some 5) dcs
    in u = [(Tier2, True), (Tier3, False), (Tier4, False), (Tier5, False)]
       \<and> isUnlocked u Tier2 \<and> \<not> isUnlocked u Tier1)"
  by (simp add: determineUnlockedTiers_def tierOrder_def truthyNum_def jsGe_def isUnlocked_def
      Let_def)

section \<open>Autopass\<close>

lemma checkDcs_lookup:
  "checkDcs cfg m t =
     (if t = Tier5 \<and> \<not> tier5Configured cfg then None else Some (dc (cfg t) + m))"
  by (cases t) (simp_all add: checkDcs_def Let_def)

text \<open>
  Autopass at a configured tier uses that tier's shifted threshold as the effective
  total; a tier whose shifted threshold is not zero is then unlocked exactly when its
  configured DC is at most that of the autopass tier.
\<close>

lemma autopass_effectiveTotal:
  assumes "T \<noteq> Tier5 \<or> tier5Configured cfg"
  shows "effectiveTotal (checkDcs cfg m) (Some T) r = Some (dc (cfg T) + m)"
  using assms by (auto simp add: effectiveTotal_def checkDcs_lookup)

lemma autopass_unlocks_nonzero:
  assumes "T \<noteq> Tier5 \<or> tier5Configured cfg"
    and "checkDcs cfg m j = Some d" and "d \<noteq> 0"
  shows "isUnlocked (determineUnlockedTiers (effectiveTotal (checkDcs cfg m) (Some T) r)
            (checkDcs cfg m)) j \<longleftrightarrow> dc (cfg j) \<le> dc (cfg T)"
  using assms
  by (auto simp add: autopass_effectiveTotal isUnlocked_iff truthyNum_def jsGe_def checkDcs_lookup
      split: if_splits)

lemma autopass_tier3_modifier2:
  "(let cfg = defaultTierConfig(Tier5 := \<lparr>dc = 25, info = [''ac'']\<rparr>);
        dcs = checkDcs cfg 2
    in effectiveTotal dcs (Some Tier3) r = Some 20
       \<and> determineUnlockedTiers (Some 20) dcs
           = [(Tier1, True), (Tier2, True), (Tier3, True), (Tier4, False), (Tier5, False)])"
  by (simp add: effectiveTotal_def checkDcs_def tier5Configured_def defaultTierConfig_def
      determineUnlockedTiers_def tierOrder_def truthyNum_def jsGe_def Let_def)

text \<open>
  C4. Autopass at tier \<open>T\<close> should unlock \<open>T\<close> and every tier with a lower threshold.
  With the shipped configuration and a modifier of -12, autopass at tier 1 gives the
  effective total 0 = 12 - 12, as the claim says, but tier 1's shifted threshold is then
  zero, the resolver leaves tier 1 out, and the check reveals nothing.
\<close>

theorem autopass_zero_threshold_unlocks_nothing:
  "effectiveTotal (checkDcs defaultTierConfig (- 12)) (Some Tier1) r = Some 0
   \<and> determineUnlockedTiers (Some 0) (checkDcs defaultTierConfig (- 12))
       = [(Tier2, False), (Tier3, False), (Tier4, False)]
   \<and> cm_knowledge (performKnowledgeCheck e m defaultTierConfig skillId (- 12) (Some Tier1) r)
       = \<lparr>tiers = [], hasAny = False\<rparr>"
  by (simp add: performKnowledgeCheck_def effectiveTotal_def checkDcs_def tier5Configured_def
      defaultTierConfig_def determineUnlockedTiers_def tierOrder_def truthyNum_def jsGe_def
      gatherKnowledge_def gatherStep_def Let_def)

section \<open>The knowledge bundle\<close>

lemma collectInfo_acc:
  "collectInfo e m ks acc = acc @ concat (map (extractedItems e m) ks)"
  by (induction ks arbitrary: acc)
     (auto simp add: extractedItems_def split: option.splits extraction.splits)

lemma gatherStep_tiers:
  "tiers (gatherStep e m cfg k t b) = tiers k @ tierEntries e m cfg (t, b)"
  by (simp add: gatherStep_def tierEntries_def Let_def split: option.splits)

lemma gatherStep_hasAny:
  "hasAny (gatherStep e m cfg k t b) \<longleftrightarrow>
     hasAny k \<or> (b \<and> (\<exists>c. cfg t = Some c \<and> info c \<noteq> []))"
  by (simp add: gatherStep_def Let_def split: option.splits)

lemma gatherLoop_tiers:
  "tiers (gatherLoop e m cfg u k) = tiers k @ concat (map (tierEntries e m cfg) u)"
  by (induction u arbitrary: k) (auto simp add: gatherStep_tiers)

lemma gatherLoop_hasAny:
  "hasAny (gatherLoop e m cfg u k) \<longleftrightarrow>
     hasAny k \<or> (\<exists>p \<in> set u. snd p \<and> (\<exists>c. cfg (fst p) = Some c \<and> info c \<noteq> []))"
  by (induction u arbitrary: k) (auto simp add: gatherStep_hasAny)

lemma td_id_newTierData: "td_id (newTierData e t) = t"
  by (cases t) (simp_all add: newTierData_def)

lemma tierEntries_member:
  assumes "td \<in> set (tierEntries e m cfg p)"
  shows "snd p \<and> td_id td = fst p \<and> td_info td \<noteq> []
         \<and> (\<exists>c. cfg (fst p) = Some c \<and> info c \<noteq> []
                \<and> td_info td = concat (map (extractedItems e m) (info c)))"
proof -
  from assms have sp: "snd p"
    by (cases "snd p") (simp_all add: tierEntries_def)
  with assms obtain c where c: "cfg (fst p) = Some c"
    by (cases "cfg (fst p)") (simp_all add: tierEntries_def)
  from assms sp c have ne: "info c \<noteq> []"
    by (cases "info c = []") (simp_all add: tierEntries_def)
  from assms sp c ne have items: "collectInfo e m (info c) [] \<noteq> []"
    by (cases "collectInfo e m (info c) [] = []") (simp_all add: tierEntries_def)
  from assms sp c ne items
  have td: "td = (newTierData e (fst p))\<lparr>td_info := collectInfo e m (info c) []\<rparr>"
    by (simp add: tierEntries_def)
  have "td_id td = fst p" by (simp add: td td_id_newTierData)
  moreover have "td_info td = concat (map (extractedItems e m) (info c))"
    by (simp add: td collectInfo_acc)
  moreover have "td_info td \<noteq> []" using items by (simp add: td)
  ultimately show ?thesis using sp c ne by simp
qed

text \<open>
  What \<open>hasAny\<close> is on the code: some unlocked entry has a configured, non-empty kind
  list. A bundle with a tier therefore has the flag set; the converse is what fails.
\<close>

lemma gatherKnowledge_hasAny:
  "hasAny (gatherKnowledge e m u cfg) \<longleftrightarrow>
     (\<exists>p \<in> set u. snd p \<and> (\<exists>c. cfg (fst p) = Some c \<and> info c \<noteq> []))"
  by (simp add: gatherKnowledge_def gatherLoop_hasAny)

lemma gatherKnowledge_tiers_imp_hasAny:
  assumes "tiers (gatherKnowledge e m u cfg) \<noteq> []"
  shows "hasAny (gatherKnowledge e m u cfg)"
proof -
  from assms obtain td where "td \<in> set (tiers (gatherKnowledge e m u cfg))"
    by (cases "tiers (gatherKnowledge e m u cfg)") auto
  then obtain p where "p \<in> set u" "td \<in> set (tierEntries e m cfg p)"
    by (auto simp add: gatherKnowledge_def gatherLoop_tiers)
  then show ?thesis
    using tierEntries_member [of td e m cfg p] by (auto simp add: gatherKnowledge_hasAny)
qed

text \<open>
  C1. \<open>hasAny\<close> should be true exactly when the bundle has a tier with an item. The flag
  is set before the tier's kinds are extracted: for an unlocked tier 1 whose only
  configured kind is not a recognised one, nothing is extracted, the bundle has no tier,
  and \<open>hasAny\<close> is true all the same; so it is for a whole check that rolls 13 against
  the shipped thresholds with such a kind list for tier 1.
\<close>

theorem gatherKnowledge_hasAny_without_items:
  "gatherKnowledge e m [(Tier1, True)] [Tier1 \<mapsto> \<lparr>dc = 12, info = [''unknownKind'']\<rparr>]
     = \<lparr>tiers = [], hasAny = True\<rparr>
   \<and> cm_knowledge (performKnowledgeCheck e m
         (defaultTierConfig(Tier1 := \<lparr>dc = 12, info = [''unknownKind'']\<rparr>)) skillId 0 None 13)
     = \<lparr>tiers = [], hasAny = True\<rparr>"
  by (simp add: gatherKnowledge_def gatherStep_def getInfoByType_def performKnowledgeCheck_def
      effectiveTotal_def checkDcs_def tier5Configured_def defaultTierConfig_def
      determineUnlockedTiers_def tierOrder_def truthyNum_def jsGe_def Let_def)

lemma getInfoByType_unrecognised:
  assumes "k \<notin> set INFO_TYPES"
  shows "getInfoByType e m k = None"
  using assms by (simp add: INFO_TYPES_def getInfoByType_def)

text \<open>
  C5. Every tier of the gathered bundle has at least one item and comes from an unlocked
  entry whose configured kind list is not empty; its items are the items of its kinds in
  order, where a kind whose extraction fails contributes none. A kind that is not
  recognised fails, and a failing kind between others leaves their extraction as it is.
\<close>

theorem gatherKnowledge_tiers_sound:
  "(\<forall>td \<in> set (tiers (gatherKnowledge e m u cfg)).
       td_info td \<noteq> []
       \<and> (td_id td, True) \<in> set u
       \<and> (\<exists>c. cfg (td_id td) = Some c \<and> info c \<noteq> []
              \<and> td_info td = concat (map (extractedItems e m) (info c))))
   \<and> (\<forall>k. k \<notin> set INFO_TYPES \<longrightarrow> getInfoByType e m k = None)
   \<and> (\<forall>k ks1 ks2. getInfoByType e m k = None \<longrightarrow>
         extractedItems e m k = []
         \<and> collectInfo e m (ks1 @ k # ks2) [] = collectInfo e m (ks1 @ ks2) [])"
proof (intro conjI ballI allI impI)
  fix td assume "td \<in> set (tiers (gatherKnowledge e m u cfg))"
  then obtain p where p: "p \<in> set u" "td \<in> set (tierEntries e m cfg p)"
    by (auto simp add: gatherKnowledge_def gatherLoop_tiers)
  note mem = tierEntries_member [OF p(2)]
  from mem show "td_info td \<noteq> []" by simp
  from mem p(1) show "(td_id td, True) \<in> set u" by (cases p) auto
  from mem show "\<exists>c. cfg (td_id td) = Some c \<and> info c \<noteq> []
              \<and> td_info td = concat (map (extractedItems e m) (info c))" by auto
next
  fix k assume "k \<notin> set INFO_TYPES"
  then show "getInfoByType e m k = None" by (rule getInfoByType_unrecognised)
next
  fix k ks1 ks2 assume n: "getInfoByType e m k = None"
  then show "extractedItems e m k = []" by (simp add: extractedItems_def)
  then show "collectInfo e m (ks1 @ k # ks2) [] = collectInfo e m (ks1 @ ks2) []"
    by (simp add: collectInfo_acc)
qed

theorem gatherKnowledge_tiers_sound_witness:
  "tiers (gatherKnowledge sampleEnv goblin [(Tier1, True), (Tier2, True)]
            [Tier1 \<mapsto> \<lparr>dc = 12, info = [''bogus'', ''ac'']\<rparr>, Tier2 \<mapsto> \<lparr>dc = 15, info = []\<rparr>])
     = [\<lparr>td_id = Tier1, td_label = ''MKC.Tier.I'', td_icon = ''fas fa-star'', td_level = 1,
          td_unlocked = True, td_info = [ValueItem ''MKC.InfoType.AC'' (JNum 15) None]\<rparr>]
   \<and> ''bogus'' \<notin> set INFO_TYPES
   \<and> getInfoByType sampleEnv goblin ''bogus'' = None
   \<and> collectInfo sampleEnv goblin ([] @ ''bogus'' # [''ac'']) []
       = collectInfo sampleEnv goblin ([] @ [''ac'']) []"
  using gatherKnowledge_tiers_sound [of sampleEnv goblin "[(Tier1, True), (Tier2, True)]"
      "[Tier1 \<mapsto> \<lparr>dc = 12, info = [''bogus'', ''ac'']\<rparr>, Tier2 \<mapsto> \<lparr>dc = 15, info = []\<rparr>]"]
  by (simp add: gatherKnowledge_def gatherStep_def getInfoByType_def INFO_TYPES_def
      newTierData_def sampleEnv_def goblin_def numOrDash_def extractedItems_def)

section \<open>Damage traits\<close>

text \<open>
  C6. The resistances extraction yields one list item per damage-trait category
  (vulnerabilities, resistances, immunities, in this order) whose list is not empty. The
  list of a category holds, for each of its types in order, the label the damage-type
  table has for the type, or the type's key when the table has no entry or an empty label
  for it, followed by the category's custom text when there is one. When all three lists
  are empty the extraction yields the single placeholder item, so the tier gets exactly
  one item for the kind.
\<close>

theorem getResistancesInfo_per_category:
  "(let typeLabel = (\<lambda>ty. case damageTypes e ty of
                            None \<Rightarrow> ty
                          | Some l \<Rightarrow> if l = '''' then ty else l);
        listed = (\<lambda>tr. case tr of
                         None \<Rightarrow> []
                       | Some t \<Rightarrow>
                           (case tvalue t of Some types \<Rightarrow> map typeLabel types | None \<Rightarrow> [])
                           @ (if custom t = '''' then [] else [custom t]));
        categories = [(''MKC.Chat.DamageVulnerabilities'', listed (dv m)),
                      (''MKC.Chat.DamageResistances'', listed (dr m)),
                      (''MKC.Chat.DamageImmunities'', listed (di m))];
        nonEmpty = filter (\<lambda>(key, labels). labels \<noteq> []) categories;
        placeholder = ValueItem (localize e ''MKC.Chat.DamageTraits'')
                        (JStr (localize e ''MKC.Chat.NoDamageTraits'')) None
    in getResistancesInfo e m =
         (if nonEmpty = [] then Single placeholder
          else Multiple (map (\<lambda>(key, labels). ListItem (localize e key) labels '''') nonEmpty))
       \<and> extractedItems e m ''resistances'' =
         (if nonEmpty = [] then [placeholder]
          else map (\<lambda>(key, labels). ListItem (localize e key) labels '''') nonEmpty)
       \<and> (\<forall>tr. formatDamageTraits e tr = listed tr))"
proof -
  have lbl: "labelOr (damageTypes e) =
      (\<lambda>ty. case damageTypes e ty of None \<Rightarrow> ty | Some l \<Rightarrow> if l = '''' then ty else l)"
    by (rule ext) (simp add: labelOr_def orStr_def split: option.splits)
  have fmt: "formatDamageTraits e tr =
      (case tr of
         None \<Rightarrow> []
       | Some t \<Rightarrow>
           (case tvalue t of
              Some types \<Rightarrow>
                map (\<lambda>ty. case damageTypes e ty of None \<Rightarrow> ty
                          | Some l \<Rightarrow> if l = '''' then ty else l) types
            | None \<Rightarrow> [])
           @ (if custom t = '''' then [] else [custom t]))" for tr
    unfolding lbl [symmetric]
    by (simp add: formatDamageTraits_def Let_def split: option.splits)
  have res: "getResistancesInfo e m =
      (if filter (\<lambda>(key, labels). labels \<noteq> [])
            [(''MKC.Chat.DamageVulnerabilities'', formatDamageTraits e (dv m)),
             (''MKC.Chat.DamageResistances'', formatDamageTraits e (dr m)),
             (''MKC.Chat.DamageImmunities'', formatDamageTraits e (di m))] = []
       then Single (ValueItem (localize e ''MKC.Chat.DamageTraits'')
                      (JStr (localize e ''MKC.Chat.NoDamageTraits'')) None)
       else Multiple (map (\<lambda>(key, labels). ListItem (localize e key) labels '''')
              (filter (\<lambda>(key, labels). labels \<noteq> [])
                [(''MKC.Chat.DamageVulnerabilities'', formatDamageTraits e (dv m)),
                 (''MKC.Chat.DamageResistances'', formatDamageTraits e (dr m)),
                 (''MKC.Chat.DamageImmunities'', formatDamageTraits e (di m))])))"
    by (simp add: getResistancesInfo_def Let_def)
  have ext: "extractedItems e m ''resistances'' =
      (case getResistancesInfo e m of Single x \<Rightarrow> [x] | Multiple xs \<Rightarrow> xs)"
    by (simp add: extractedItems_def getInfoByType_def)
  show ?thesis
    unfolding Let_def fmt [symmetric]
    by (simp only: ext res extraction.case if_distrib [of "case_extraction (\<lambda>x. [x]) (\<lambda>xs. xs)"]
        simp_thms)
qed

theorem getResistancesInfo_per_category_witness:
  "getResistancesInfo sampleEnv drake =
     Multiple [ListItem ''MKC.Chat.DamageVulnerabilities'' [''Cold''] '''',
               ListItem ''MKC.Chat.DamageResistances'' [''Fire'', ''acid'', ''nonmagical attacks''] '''',
               ListItem ''MKC.Chat.DamageImmunities'' [''poison''] '''']
   \<and> formatDamageTraits sampleEnv (dr drake) = [''Fire'', ''acid'', ''nonmagical attacks'']
   \<and> getResistancesInfo sampleEnv goblin =
       Single (ValueItem ''MKC.Chat.DamageTraits'' (JStr ''MKC.Chat.NoDamageTraits'') None)
   \<and> extractedItems sampleEnv goblin ''resistances'' =
       [ValueItem ''MKC.Chat.DamageTraits'' (JStr ''MKC.Chat.NoDamageTraits'') None]"
proof -
  have traits:
    "dv drake = Some \<lparr>tvalue = Some [''cold''], custom = []\<rparr>"
    "dr drake = Some \<lparr>tvalue = Some [''fire'', ''acid''], custom = ''nonmagical attacks''\<rparr>"
    "di drake = Some \<lparr>tvalue = Some [''poison''], custom = []\<rparr>"
    "dv goblin = Some \<lparr>tvalue = Some [], custom = []\<rparr>"
    "dr goblin = Some \<lparr>tvalue = Some [], custom = []\<rparr>"
    "di goblin = Some \<lparr>tvalue = Some [], custom = []\<rparr>"
    by (simp_all add: drake_def goblin_def)
  have tbl:
    "damageTypes sampleEnv = [''fire'' \<mapsto> ''Fire'', ''cold'' \<mapsto> ''Cold'', ''poison'' \<mapsto> []]"
    "localize sampleEnv = (\<lambda>key. key)"
    by (simp_all add: sampleEnv_def)
  from getResistancesInfo_per_category [of sampleEnv drake]
    getResistancesInfo_per_category [of sampleEnv goblin]
  show ?thesis
    by (simp add: Let_def traits tbl)
qed

section \<open>Extreme ability scores\<close>








section \<open>The bestiary: properties\<close>

lemma renderInfos_eq: "renderInfos xs content = content @ concat (map renderInfo xs)"
  by (induction xs arbitrary: content) simp_all

lemma renderTiers_eq: "renderTiers ts content = content @ concat (map tierHtml ts)"
  by (induction ts arbitrary: content) (simp_all add: renderInfos_eq tierHtml_def)

lemma buildBestiaryContent_eq:
  "buildBestiaryContent e k n = timestampHeader e @ concat (map tierHtml (tiers k))"
  by (simp add: buildBestiaryContent_def renderTiers_eq)

lemma find_updateFirst:
  assumes "\<And>x. P x \<Longrightarrow> P (f x)"
  shows "find P (updateFirst P f xs) = map_option f (find P xs)"
  using assms by (induction xs) simp_all

lemma find_snoc_None:
  "find P xs = None \<Longrightarrow> find P (xs @ [y]) = (if P y then Some y else None)"
  by (induction xs) (simp_all split: if_splits)

lemma length_updateFirst: "length (updateFirst P f xs) = length xs"
  by (induction xs) simp_all

lemma filter_updateFirst_other:
  assumes "\<And>x. P x \<Longrightarrow> P (f x)"
  shows "filter (\<lambda>x. \<not> P x) (updateFirst P f xs) = filter (\<lambda>x. \<not> P x) xs"
  using assms by (induction xs) simp_all

lemma bestiaryPages_notify: "bestiaryPages e (notify n w) = bestiaryPages e w"
  by (simp add: bestiaryPages_def notify_def)

lemma bestiaryPages_updateFirst:
  assumes "find (\<lambda>j. jr_name j = localize e ''MKC.Journal.BestiaryName'') (journals w) = Some b"
  shows "bestiaryPages e (w\<lparr>journals := updateFirst
             (\<lambda>j. jr_name j = localize e ''MKC.Journal.BestiaryName'')
             (\<lambda>j. j\<lparr>jr_pages := g (jr_pages j)\<rparr>) (journals w)\<rparr>) = g (jr_pages b)"
  using assms by (simp add: bestiaryPages_def find_updateFirst)

lemma bestiaryPages_new_journal:
  assumes "find (\<lambda>j. jr_name j = localize e ''MKC.Journal.BestiaryName'') (journals w) = None"
  shows "bestiaryPages e (w\<lparr>journals := journals w @
             [\<lparr>jr_name = localize e ''MKC.Journal.BestiaryName'', jr_pages = ps\<rparr>]\<rparr>) = ps"
  using assms by (simp add: bestiaryPages_def find_snoc_None)

text \<open>The pages of the bestiary after a commit for a known monster.\<close>

lemma addToBestiary_pages:
  assumes "actors w monsterId = Some mon"
  shows "bestiaryPages e (addToBestiary e w monsterId k) =
     (case bestiaryPage e w (mname mon) of
        None \<Rightarrow> bestiaryPages e w @ [\<lparr>pg_name = mname mon, pg_type = ''text'',
                                      pg_content = buildBestiaryContent e k (mname mon)\<rparr>]
      | Some old \<Rightarrow> updateFirst (\<lambda>p. pg_name p = mname mon)
                      (\<lambda>p. p\<lparr>pg_content := buildBestiaryContent e k (mname mon)\<rparr>)
                      (bestiaryPages e w))"
proof (cases "find (\<lambda>j. jr_name j = localize e ''MKC.Journal.BestiaryName'') (journals w)")
  case None
  then have bp: "bestiaryPages e w = []" by (simp add: bestiaryPages_def)
  show ?thesis using assms None
    by (simp add: addToBestiary_def Let_def bestiaryPages_notify bestiaryPage_def bp
        bestiaryPages_new_journal)
next
  case (Some b)
  then have bp: "bestiaryPages e w = jr_pages b" by (simp add: bestiaryPages_def)
  show ?thesis
  proof (cases "find (\<lambda>p. pg_name p = mname mon) (jr_pages b)")
    case None
    show ?thesis using assms Some None
        bestiaryPages_updateFirst [OF Some, of "\<lambda>ps. ps @ [\<lparr>pg_name = mname mon, pg_type = ''text'',
                                      pg_content = buildBestiaryContent e k (mname mon)\<rparr>]"]
      by (simp add: addToBestiary_def Let_def bestiaryPages_notify bestiaryPage_def bp)
  next
    case (Some old)
    show ?thesis using assms \<open>find _ (journals w) = Some b\<close> Some
        bestiaryPages_updateFirst [OF \<open>find _ (journals w) = Some b\<close>,
          of "updateFirst (\<lambda>p. pg_name p = mname mon)
                      (\<lambda>p. p\<lparr>pg_content := buildBestiaryContent e k (mname mon)\<rparr>)"]
      by (simp add: addToBestiary_def Let_def bestiaryPages_notify bestiaryPage_def bp
          mergeBestiaryContent_def)
  qed
qed

text \<open>The rendered page, spelled out: the dated header, then per tier its heading and its
  items, each in the markup of its shape.\<close>

lemma buildBestiaryContent_spelled:
  "buildBestiaryContent e k n =
     ''<p><em>'' @ format e ''MKC.Journal.LastUpdated'' [(''date'', today e)] @ ''</em></p><hr>''
     @ concat (map (\<lambda>t.
         ''<h3>'' @ td_label t @ ''</h3>''
         @ concat (map (\<lambda>i. case i of
             ValueItem label v formula \<Rightarrow>
               ''<p><strong>'' @ label @ '':</strong> ''
               @ (case v of JNum n \<Rightarrow> showInt n | JStr s \<Rightarrow> s)
               @ (case formula of None \<Rightarrow> ''''
                  | Some f \<Rightarrow> if f = '''' then '''' else '' ('' @ f @ '')'')
               @ ''</p>''
           | ListItem label items emptyText \<Rightarrow>
               if items = []
               then ''<p><strong>'' @ label @ '':</strong> <em>''
                    @ (if emptyText = '''' then ''None'' else emptyText) @ ''</em></p>''
               else ''<p><strong>'' @ label @ '':</strong> '' @ joinStr '', '' items @ ''</p>''
           | SubItem label subs \<Rightarrow>
               ''<p><strong>'' @ label @ '':</strong></p><ul>''
               @ concat (map (\<lambda>(l, items). ''<li><strong>'' @ l @ '':</strong> ''
                                              @ joinStr '', '' items @ ''</li>'') subs)
               @ ''</ul>'') (td_info t))) (tiers k))"
proof -
  have ri: "renderInfo = (\<lambda>i. case i of
             ValueItem label v formula \<Rightarrow>
               ''<p><strong>'' @ label @ '':</strong> ''
               @ (case v of JNum n \<Rightarrow> showInt n | JStr s \<Rightarrow> s)
               @ (case formula of None \<Rightarrow> ''''
                  | Some f \<Rightarrow> if f = '''' then '''' else '' ('' @ f @ '')'')
               @ ''</p>''
           | ListItem label items emptyText \<Rightarrow>
               if items = []
               then ''<p><strong>'' @ label @ '':</strong> <em>''
                    @ (if emptyText = '''' then ''None'' else emptyText) @ ''</em></p>''
               else ''<p><strong>'' @ label @ '':</strong> '' @ joinStr '', '' items @ ''</p>''
           | SubItem label subs \<Rightarrow>
               ''<p><strong>'' @ label @ '':</strong></p><ul>''
               @ concat (map (\<lambda>(l, items). ''<li><strong>'' @ l @ '':</strong> ''
                                              @ joinStr '', '' items @ ''</li>'') subs)
               @ ''</ul>'')"
  proof (rule ext)
    fix i show "renderInfo i = (case i of
             ValueItem label v formula \<Rightarrow>
               ''<p><strong>'' @ label @ '':</strong> ''
               @ (case v of JNum n \<Rightarrow> showInt n | JStr s \<Rightarrow> s)
               @ (case formula of None \<Rightarrow> ''''
                  | Some f \<Rightarrow> if f = '''' then '''' else '' ('' @ f @ '')'')
               @ ''</p>''
           | ListItem label items emptyText \<Rightarrow>
               if items = []
               then ''<p><strong>'' @ label @ '':</strong> <em>''
                    @ (if emptyText = '''' then ''None'' else emptyText) @ ''</em></p>''
               else ''<p><strong>'' @ label @ '':</strong> '' @ joinStr '', '' items @ ''</p>''
           | SubItem label subs \<Rightarrow>
               ''<p><strong>'' @ label @ '':</strong></p><ul>''
               @ concat (map (\<lambda>(l, items). ''<li><strong>'' @ l @ '':</strong> ''
                                              @ joinStr '', '' items @ ''</li>'') subs)
               @ ''</ul>'')"
      by (cases i) (simp_all add: showVal_def orStr_def split: option.splits)
  qed
  have th: "tierHtml = (\<lambda>t. ''<h3>'' @ td_label t @ ''</h3>'' @ concat (map renderInfo (td_info t)))"
    by (rule ext) (simp add: tierHtml_def)
  show ?thesis
    unfolding ri [symmetric]
    by (simp add: buildBestiaryContent_eq timestampHeader_def th)
qed

text \<open>
  C8. Committing a bundle for a known monster: when the bestiary has no page for the
  monster, exactly one page is added (in a new bestiary journal if there was none), holding
  the rendered bundle; when a page exists, its content becomes the newly rendered bundle
  whatever it was before, no page is added, and the other pages stay as they were. The
  rendered bundle is the header with the current date, as the host formats it under the
  last-updated key, followed for each tier by its heading and its items: a value with its
  formula in parentheses when it has one, a list joined by commas or its empty-state
  text (or "None") when it is empty, or its sub-groups as a bullet list.
\<close>

theorem addToBestiary_creates_or_replaces:
  assumes "actors w monsterId = Some mon"
  shows "(bestiaryPage e w (mname mon) = None \<longrightarrow>
            bestiaryPages e (addToBestiary e w monsterId k) =
              bestiaryPages e w @ [\<lparr>pg_name = mname mon, pg_type = ''text'',
                                    pg_content = buildBestiaryContent e k (mname mon)\<rparr>]
            \<and> bestiaryPage e (addToBestiary e w monsterId k) (mname mon) =
                Some \<lparr>pg_name = mname mon, pg_type = ''text'',
                      pg_content = buildBestiaryContent e k (mname mon)\<rparr>)
       \<and> (\<forall>old. bestiaryPage e w (mname mon) = Some old \<longrightarrow>
            bestiaryPage e (addToBestiary e w monsterId k) (mname mon) =
              Some (old\<lparr>pg_content := buildBestiaryContent e k (mname mon)\<rparr>)
            \<and> length (bestiaryPages e (addToBestiary e w monsterId k)) = length (bestiaryPages e w)
            \<and> filter (\<lambda>p. pg_name p \<noteq> mname mon) (bestiaryPages e (addToBestiary e w monsterId k))
                = filter (\<lambda>p. pg_name p \<noteq> mname mon) (bestiaryPages e w))
       \<and> buildBestiaryContent e k (mname mon) =
           ''<p><em>'' @ format e ''MKC.Journal.LastUpdated'' [(''date'', today e)] @ ''</em></p><hr>''
           @ concat (map (\<lambda>t.
               ''<h3>'' @ td_label t @ ''</h3>''
               @ concat (map (\<lambda>i. case i of
                   ValueItem label v formula \<Rightarrow>
                     ''<p><strong>'' @ label @ '':</strong> ''
                     @ (case v of JNum n \<Rightarrow> showInt n | JStr s \<Rightarrow> s)
                     @ (case formula of None \<Rightarrow> ''''
                        | Some f \<Rightarrow> if f = '''' then '''' else '' ('' @ f @ '')'')
                     @ ''</p>''
                 | ListItem label items emptyText \<Rightarrow>
                     if items = []
                     then ''<p><strong>'' @ label @ '':</strong> <em>''
                          @ (if emptyText = '''' then ''None'' else emptyText) @ ''</em></p>''
                     else ''<p><strong>'' @ label @ '':</strong> '' @ joinStr '', '' items @ ''</p>''
                 | SubItem label subs \<Rightarrow>
                     ''<p><strong>'' @ label @ '':</strong></p><ul>''
                     @ concat (map (\<lambda>(l, items). ''<li><strong>'' @ l @ '':</strong> ''
                                                    @ joinStr '', '' items @ ''</li>'') subs)
                     @ ''</ul>'') (td_info t))) (tiers k))"
proof (intro conjI impI allI)
  assume n: "bestiaryPage e w (mname mon) = None"
  show "bestiaryPages e (addToBestiary e w monsterId k) =
              bestiaryPages e w @ [\<lparr>pg_name = mname mon, pg_type = ''text'',
                                    pg_content = buildBestiaryContent e k (mname mon)\<rparr>]"
    using n by (simp add: addToBestiary_pages [OF assms])
  then show "bestiaryPage e (addToBestiary e w monsterId k) (mname mon) =
                Some \<lparr>pg_name = mname mon, pg_type = ''text'',
                      pg_content = buildBestiaryContent e k (mname mon)\<rparr>"
    using n by (simp add: bestiaryPage_def find_snoc_None)
next
  fix old assume o: "bestiaryPage e w (mname mon) = Some old"
  then have pages: "bestiaryPages e (addToBestiary e w monsterId k) =
      updateFirst (\<lambda>p. pg_name p = mname mon)
        (\<lambda>p. p\<lparr>pg_content := buildBestiaryContent e k (mname mon)\<rparr>) (bestiaryPages e w)"
    by (simp add: addToBestiary_pages [OF assms])
  show "bestiaryPage e (addToBestiary e w monsterId k) (mname mon) =
              Some (old\<lparr>pg_content := buildBestiaryContent e k (mname mon)\<rparr>)"
    using o by (simp add: pages bestiaryPage_def find_updateFirst)
  show "length (bestiaryPages e (addToBestiary e w monsterId k)) = length (bestiaryPages e w)"
    by (simp add: pages length_updateFirst)
  show "filter (\<lambda>p. pg_name p \<noteq> mname mon) (bestiaryPages e (addToBestiary e w monsterId k))
                = filter (\<lambda>p. pg_name p \<noteq> mname mon) (bestiaryPages e w)"
    by (simp add: pages filter_updateFirst_other)
next
  show "buildBestiaryContent e k (mname mon) =
           ''<p><em>'' @ format e ''MKC.Journal.LastUpdated'' [(''date'', today e)] @ ''</em></p><hr>''
           @ concat (map (\<lambda>t.
               ''<h3>'' @ td_label t @ ''</h3>''
               @ concat (map (\<lambda>i. case i of
                   ValueItem label v formula \<Rightarrow>
                     ''<p><strong>'' @ label @ '':</strong> ''
                     @ (case v of JNum n \<Rightarrow> showInt n | JStr s \<Rightarrow> s)
                     @ (case formula of None \<Rightarrow> ''''
                        | Some f \<Rightarrow> if f = '''' then '''' else '' ('' @ f @ '')'')
                     @ ''</p>''
                 | ListItem label items emptyText \<Rightarrow>
                     if items = []
                     then ''<p><strong>'' @ label @ '':</strong> <em>''
                          @ (if emptyText = '''' then ''None'' else emptyText) @ ''</em></p>''
                     else ''<p><strong>'' @ label @ '':</strong> '' @ joinStr '', '' items @ ''</p>''
                 | SubItem label subs \<Rightarrow>
                     ''<p><strong>'' @ label @ '':</strong></p><ul>''
                     @ concat (map (\<lambda>(l, items). ''<li><strong>'' @ l @ '':</strong> ''
                                                    @ joinStr '', '' items @ ''</li>'') subs)
                     @ ''</ul>'') (td_info t))) (tiers k))"
    by (rule buildBestiaryContent_spelled)
qed

lemma sample_lookups:
  "actors freshWorld ''gob1'' = Some goblin"
  "actors recordedWorld ''gob1'' = Some goblin"
  "mname goblin = ''Goblin''"
  "bestiaryPages sampleEnv freshWorld = []"
  "bestiaryPage sampleEnv freshWorld ''Goblin'' = None"
  "bestiaryPage sampleEnv recordedWorld ''Goblin'' =
     Some \<lparr>pg_name = ''Goblin'', pg_type = ''text'', pg_content = ''<h3>Tier I</h3><p>old notes</p>''\<rparr>"
  by (simp_all add: freshWorld_def recordedWorld_def goblin_def bestiaryPage_def bestiaryPages_def
      sampleEnv_def)

lemma show_samples: "showInt 15 = ''15''" "showInt 7 = ''7''"
  by code_simp+

theorem addToBestiary_creates_or_replaces_witness:
  "actors freshWorld ''gob1'' = Some goblin
   \<and> bestiaryPage sampleEnv freshWorld ''Goblin'' = None
   \<and> bestiaryPages sampleEnv (addToBestiary sampleEnv freshWorld ''gob1'' sampleBundle)
       = [\<lparr>pg_name = ''Goblin'', pg_type = ''text'',
            pg_content = ''<p><em>MKC.Journal.LastUpdated11/2/2026</em></p><hr><h3>Tier I</h3><p><strong>Armor Class:</strong> 15</p><p><strong>Condition Immunities:</strong> <em>None known</em></p>''\<rparr>]
   \<and> actors recordedWorld ''gob1'' = Some goblin
   \<and> bestiaryPage sampleEnv recordedWorld ''Goblin'' =
       Some \<lparr>pg_name = ''Goblin'', pg_type = ''text'', pg_content = ''<h3>Tier I</h3><p>old notes</p>''\<rparr>
   \<and> bestiaryPage sampleEnv (addToBestiary sampleEnv recordedWorld ''gob1'' fullBundle) ''Goblin''
       = Some \<lparr>pg_name = ''Goblin'', pg_type = ''text'',
               pg_content = ''<p><em>MKC.Journal.LastUpdated11/2/2026</em></p><hr><h3>Tier I</h3><p><strong>Armor Class:</strong> 15</p><p><strong>Hit Points:</strong> 7 (2d6)</p><h3>Tier II</h3><p><strong>Damage Resistances:</strong> Fire, Cold</p><p><strong>Condition Immunities:</strong> <em>None</em></p><p><strong>Speed:</strong> 30 ft.</p>''\<rparr>
   \<and> length (bestiaryPages sampleEnv (addToBestiary sampleEnv recordedWorld ''gob1'' fullBundle)) = 1"
proof -
  have host: "format sampleEnv ''MKC.Journal.LastUpdated'' [(''date'', today sampleEnv)]
                = ''MKC.Journal.LastUpdated11/2/2026''"
    by (simp add: sampleEnv_def)
  have pages: "bestiaryPages sampleEnv recordedWorld =
      [\<lparr>pg_name = ''Goblin'', pg_type = ''text'', pg_content = ''<h3>Tier I</h3><p>old notes</p>''\<rparr>]"
    by (simp add: recordedWorld_def bestiaryPages_def sampleEnv_def)
  from addToBestiary_creates_or_replaces [of freshWorld "''gob1''" goblin sampleEnv sampleBundle]
    addToBestiary_creates_or_replaces [of recordedWorld "''gob1''" goblin sampleEnv fullBundle]
  show ?thesis
    by (simp add: sample_lookups host pages sampleBundle_def fullBundle_def show_samples)
qed

text \<open>
  C10. Committing a bundle without tiers for a monster that has a bestiary page still
  replaces the page's content: what remains is the dated header alone, also through the
  chat button, which only asks for the stored knowledge object to be present.
\<close>

theorem empty_bundle_wipes_record:
  assumes "actors w monsterId = Some mon"
    and "bestiaryPage e w (mname mon) = Some old"
    and "tiers k = []"
  shows "bestiaryPage e (addToBestiary e w monsterId k) (mname mon)
           = Some (old\<lparr>pg_content := timestampHeader e\<rparr>)
       \<and> bestiaryPage e (onAddToBestiaryClick e w monsterId (Some k)) (mname mon)
           = Some (old\<lparr>pg_content := timestampHeader e\<rparr>)"
  using assms
  by (simp add: onAddToBestiaryClick_def bestiaryPage_def addToBestiary_pages [OF assms(1)]
      find_updateFirst buildBestiaryContent_eq)

theorem empty_bundle_wipes_record_witness:
  "actors recordedWorld ''gob1'' = Some goblin
   \<and> bestiaryPage sampleEnv recordedWorld ''Goblin'' =
       Some \<lparr>pg_name = ''Goblin'', pg_type = ''text'', pg_content = ''<h3>Tier I</h3><p>old notes</p>''\<rparr>
   \<and> tiers emptyBundle = [] \<and> \<not> hasAny emptyBundle
   \<and> bestiaryPage sampleEnv (onAddToBestiaryClick sampleEnv recordedWorld ''gob1'' (Some emptyBundle))
         ''Goblin''
       = Some \<lparr>pg_name = ''Goblin'', pg_type = ''text'',
               pg_content = ''<p><em>MKC.Journal.LastUpdated11/2/2026</em></p><hr>''\<rparr>"
proof -
  have header: "timestampHeader sampleEnv = ''<p><em>MKC.Journal.LastUpdated11/2/2026</em></p><hr>''"
    by (simp add: timestampHeader_def sampleEnv_def)
  show ?thesis
    using empty_bundle_wipes_record [of recordedWorld "''gob1''" goblin sampleEnv
        "\<lparr>pg_name = ''Goblin'', pg_type = ''text'', pg_content = ''<h3>Tier I</h3><p>old notes</p>''\<rparr>"
        emptyBundle]
    by (simp add: sample_lookups emptyBundle_def header)
qed

section \<open>Aborted operations\<close>

text \<open>
  C9. A click on the token control ends in a warning, and opens no dialog, when no token
  is targeted, when several are, when the targeted token has no actor, when the actor is
  not an NPC, and when no player character is available; a dialog, the only way to a
  check, is opened exactly when none of these holds. A bestiary commit for an unknown
  monster identifier reports an error and leaves actors and journals as they were.
\<close>

theorem precondition_failures_abort:
  "(targets g = [] \<longrightarrow>
      onMonsterKnowledgeClick e g = Inl (NWarn (localize e ''MKC.Warnings.NoTokenTargeted'')))
 \<and> (length (targets g) > 1 \<longrightarrow>
      onMonsterKnowledgeClick e g = Inl (NWarn (localize e ''MKC.Warnings.MultipleTokensTargeted'')))
 \<and> (targets g = [None] \<longrightarrow>
      onMonsterKnowledgeClick e g = Inl (NWarn (localize e ''MKC.Warnings.NoActorOnToken'')))
 \<and> (\<forall>a. targets g = [Some a] \<and> mtype a \<noteq> ''npc'' \<longrightarrow>
      onMonsterKnowledgeClick e g = Inl (NWarn (localize e ''MKC.Warnings.NotAnNPC'')))
 \<and> (\<forall>a. targets g = [Some a] \<and> mtype a = ''npc'' \<and> getAvailableCharacters g = [] \<longrightarrow>
      onMonsterKnowledgeClick e g = Inl (NWarn (localize e ''MKC.Warnings.NoPlayerCharacter'')))
 \<and> ((\<exists>d. onMonsterKnowledgeClick e g = Inr d) \<longleftrightarrow>
      (\<exists>a. targets g = [Some a] \<and> mtype a = ''npc'' \<and> getAvailableCharacters g \<noteq> []))
 \<and> (actors w monsterId = None \<longrightarrow>
      addToBestiary e w monsterId k =
        w\<lparr>notifications := notifications w @ [NError (localize e ''MKC.Errors.MonsterNotFound'')]\<rparr>
      \<and> journals (addToBestiary e w monsterId k) = journals w
      \<and> actors (addToBestiary e w monsterId k) = actors w)"
proof -
  have dlg: "(\<exists>d. onMonsterKnowledgeClick e g = Inr d) \<longleftrightarrow>
      (\<exists>a. targets g = [Some a] \<and> mtype a = ''npc'' \<and> getAvailableCharacters g \<noteq> [])"
  proof (cases "targets g")
    case Nil
    then show ?thesis by (simp add: onMonsterKnowledgeClick_def)
  next
    case (Cons t ts)
    then show ?thesis
      by (cases ts; cases t; cases "getAvailableCharacters g")
         (auto simp add: onMonsterKnowledgeClick_def Let_def)
  qed
  show ?thesis
    using dlg by (auto simp add: onMonsterKnowledgeClick_def addToBestiary_def notify_def)
qed

theorem precondition_failures_abort_witness:
  "onMonsterKnowledgeClick sampleEnv (sampleGame\<lparr>targets := []\<rparr>)
     = Inl (NWarn ''MKC.Warnings.NoTokenTargeted'')
   \<and> onMonsterKnowledgeClick sampleEnv (sampleGame\<lparr>targets := [Some goblin, Some goblin]\<rparr>)
     = Inl (NWarn ''MKC.Warnings.MultipleTokensTargeted'')
   \<and> onMonsterKnowledgeClick sampleEnv (sampleGame\<lparr>targets := [None]\<rparr>)
     = Inl (NWarn ''MKC.Warnings.NoActorOnToken'')
   \<and> onMonsterKnowledgeClick sampleEnv (sampleGame\<lparr>targets := [Some hero]\<rparr>)
     = Inl (NWarn ''MKC.Warnings.NotAnNPC'')
   \<and> onMonsterKnowledgeClick sampleEnv (sampleGame\<lparr>gameActors := [goblin]\<rparr>)
     = Inl (NWarn ''MKC.Warnings.NoPlayerCharacter'')
   \<and> (\<exists>d. onMonsterKnowledgeClick sampleEnv sampleGame = Inr d)
   \<and> actors freshWorld ''nobody'' = None
   \<and> addToBestiary sampleEnv freshWorld ''nobody'' sampleBundle
     = freshWorld\<lparr>notifications := [NError ''MKC.Errors.MonsterNotFound'']\<rparr>"
  using precondition_failures_abort [of "sampleGame\<lparr>targets := []\<rparr>" sampleEnv freshWorld "''nobody''" sampleBundle]
    precondition_failures_abort [of "sampleGame\<lparr>targets := [Some goblin, Some goblin]\<rparr>" sampleEnv]
    precondition_failures_abort [of "sampleGame\<lparr>targets := [None]\<rparr>" sampleEnv]
    precondition_failures_abort [of "sampleGame\<lparr>targets := [Some hero]\<rparr>" sampleEnv]
    precondition_failures_abort [of "sampleGame\<lparr>gameActors := [goblin]\<rparr>" sampleEnv]
    precondition_failures_abort [of sampleGame sampleEnv]
  by (simp add: sampleGame_def getAvailableCharacters_def hero_def goblin_def sampleEnv_def
      freshWorld_def)

end
